theory Spec2Isabelle
  imports Complex_Main "HOL-Library.Sublist"
begin

section \<open>Data model of the pNode dashboard (src/components/Dashboard.tsx)\<close>

text \<open>
  A TypeScript \<open>number\<close> is modelled as a real: the claims verified here are about the
  formulas and the case analysis, not about IEEE rounding. The two places where JavaScript
  arithmetic has no real value (a quotient by zero) are made visible by \<open>js_div\<close> below.
  Timestamps (\<open>Date.now()\<close>, milliseconds) and HTTP status codes are naturals.
\<close>

type_synonym number = real

record NodeStats =
  cpu_percent :: number
  memory_percent :: number
  storage_used :: number
  storage_percent :: number
  uptime :: number

record PodInfo =
  pod_pubkey :: string
  pod_ip :: "string option"
  gossip_port :: "nat option"

record PodsResponse =
  total_count :: nat
  pods :: "PodInfo list"

datatype node_status = Online | Offline | Degraded

text \<open>
  \<open>PNode\<close>: \<open>null\<close> and an omitted optional field are both \<open>None\<close>. The field \<open>id\<close> of
  the source is \<open>node_id\<close> here.
\<close>

record PNode =
  node_id :: string
  ip :: string
  status :: node_status
  stats :: "NodeStats option"
  version :: string
  gossipPort :: nat
  pubkey :: "string option"
  lastSeen :: "nat option"
  error :: "string option"

record rpc_error_obj =
  code :: int
  message :: string

text \<open>
  \<open>RpcResponse<T>\<close>: the optional fields \<open>result\<close> and \<open>error\<close> are \<open>rpc_result\<close> and
  \<open>rpc_error\<close>; \<open>None\<close> is the field being \<open>undefined\<close>.
\<close>

record 'a RpcResponse =
  jsonrpc :: string
  rpc_id :: nat
  rpc_result :: "'a option"
  rpc_error :: "rpc_error_obj option"

text \<open>
  A thrown JavaScript value: an \<open>Error\<close> instance with its message, or any other value
  (for which \<open>error instanceof Error\<close> is false).
\<close>

datatype js_exn = JsError string | JsOther

text \<open>How a promise settles (\<open>PromiseSettledResult\<close>).\<close>

datatype 'a settled = Fulfilled 'a | Rejected js_exn

definition KNOWN_PNODE_IPS :: "string list" where
  "KNOWN_PNODE_IPS =
     [''173.212.220.65'', ''62.171.169.176'', ''161.97.151.101'', ''173.249.11.155'',
      ''62.171.163.135'', ''173.212.237.139'', ''173.212.255.210'', ''173.212.237.99'',
      ''173.249.7.61'', ''144.91.109.142'']"

section \<open>Rendering numbers\<close>

definition digit_char :: "nat \<Rightarrow> char" where
  "digit_char n = ''0123456789'' ! n"

text \<open>The decimal digits of a natural number, as template literals and \<open>toFixed\<close> print them.\<close>

fun digits :: "nat \<Rightarrow> string" where
  "digits n = (if n < 10 then [digit_char n] else digits (n div 10) @ [digit_char (n mod 10)])"

declare digits.simps [simp del]

text \<open>
  \<open>x.toFixed(0)\<close>: the integer nearest to \<open>x\<close>, the larger one on a tie, after the sign has
  been split off; printed in decimal. (The exponent form that \<open>toFixed\<close> switches to from
  \<open>10^21\<close> on is not modelled; the only argument in this program is a percentage.)
\<close>

definition toFixed0 :: "number \<Rightarrow> string" where
  "toFixed0 x =
     (if x < 0 then ''-'' @ digits (nat \<lfloor>- x + 1 / 2\<rfloor>) else digits (nat \<lfloor>x + 1 / 2\<rfloor>))"

text \<open>
  A quotient of two numbers. JavaScript does not raise on a zero divisor, it yields
  \<open>NaN\<close> or an infinity; \<open>None\<close> stands for that outcome, so that a division by zero is
  observable in the model.
\<close>

definition js_div :: "number \<Rightarrow> number \<Rightarrow> number option" where
  "js_div a b = (if b = 0 then None else Some (a / b))"

section \<open>The RPC client: \<open>rpcCall\<close>\<close>

text \<open>
  What \<open>fetch\<close> and the two \<open>response.json()\<close> calls deliver to \<open>rpcCall\<close>:
  \<^item> \<open>FetchRejected e\<close>: \<open>fetch\<close> rejects (network fault, or the abort fired by the
    \<open>REQUEST_TIMEOUT\<close> timer);
  \<^item> \<open>NotOk st b\<close>: a response with \<open>response.ok\<close> false and status \<open>st\<close>; \<open>b\<close> is
    what \<open>response.json()\<close> does: it throws (\<open>Inl\<close>) or gives an object whose \<open>error\<close>
    field is a string or missing;
  \<^item> \<open>OkBody b\<close>: a response with \<open>response.ok\<close> true; \<open>response.json()\<close> throws or
    gives the envelope.
\<close>

datatype 'a transport =
    FetchRejected js_exn
  | NotOk nat "js_exn + string option"
  | OkBody "js_exn + 'a RpcResponse"

definition REQUEST_TIMEOUT :: nat where
  "REQUEST_TIMEOUT = 8000"

definition REFRESH_INTERVAL :: nat where
  "REFRESH_INTERVAL = 30000"

text \<open>
  \<open>rpcCall\<close> as the settlement of the promise it returns. The \<open>catch\<close> clause clears the
  timer and rethrows, so every exception of the \<open>try\<close> block is the rejection.
  \<open>errorData.error || ...\<close> falls through on a missing field and on the empty string.
\<close>

definition rpcCall :: "'a transport \<Rightarrow> 'a settled" where
  "rpcCall t =
     (case t of
        FetchRejected e \<Rightarrow> Rejected e
      | NotOk st b \<Rightarrow>
          (case b of
             Inl e \<Rightarrow> Rejected e
           | Inr errorData \<Rightarrow>
               Rejected (JsError
                 (case errorData of
                    Some m \<Rightarrow> if m \<noteq> [] then m else ''HTTP error! status: '' @ digits st
                  | None \<Rightarrow> ''HTTP error! status: '' @ digits st)))
      | OkBody b \<Rightarrow>
          (case b of
             Inl e \<Rightarrow> Rejected e
           | Inr data \<Rightarrow>
               (case rpc_error data of
                  Some err \<Rightarrow> Rejected (JsError (message err))
                | None \<Rightarrow>
                    (case rpc_result data of
                       None \<Rightarrow> Rejected (JsError ''No result in response'')
                     | Some r \<Rightarrow> Fulfilled r))))"

section \<open>The node poller: \<open>fetchNodeData\<close>\<close>

text \<open>
  The \<open>try\<close> block of \<open>fetchNodeData\<close>; \<open>Inl\<close> would be the block throwing.
  \<open>Promise.allSettled\<close> never rejects, whatever the two calls do, and no other statement
  of the block throws, so the block always delivers its object. \<open>now\<close> is the value of
  \<open>Date.now()\<close>. \<open>podsData?.pods?.[0]?.pubkey ?? null\<close> is the first entry's key, and
  \<open>null\<close> when the call failed or the list is empty.
\<close>

definition fetchNodeData_try ::
  "string \<Rightarrow> NodeStats transport \<Rightarrow> PodsResponse transport \<Rightarrow> nat \<Rightarrow> js_exn + PNode" where
  "fetchNodeData_try addr statsReply podsReply now =
     (let statsResult = rpcCall statsReply;
          podsResult = rpcCall podsReply;
          stats = (case statsResult of Fulfilled v \<Rightarrow> Some v | Rejected _ \<Rightarrow> None);
          podsData = (case podsResult of Fulfilled v \<Rightarrow> Some v | Rejected _ \<Rightarrow> None);
          status =
            (case stats of
               Some s \<Rightarrow> if cpu_percent s > 90 \<or> memory_percent s > 95 then Degraded else Online
             | None \<Rightarrow> Online)
      in Inr \<lparr> node_id = addr, ip = addr, status = status, stats = stats,
               version = ''v0.8 Reinheim'', gossipPort = 8001,
               pubkey =
                 (case podsData of
                    None \<Rightarrow> None
                  | Some d \<Rightarrow> (case pods d of [] \<Rightarrow> None | p # _ \<Rightarrow> Some (pod_pubkey p))),
               lastSeen = Some now, error = None \<rparr>)"

text \<open>The \<open>catch\<close> clause of \<open>fetchNodeData\<close>.\<close>

definition fetchNodeData_catch :: "string \<Rightarrow> js_exn \<Rightarrow> PNode" where
  "fetchNodeData_catch addr e =
     \<lparr> node_id = addr, ip = addr, status = Offline, stats = None,
       version = ''unknown'', gossipPort = 8001, pubkey = None, lastSeen = None,
       error = Some (case e of JsError m \<Rightarrow> m | JsOther \<Rightarrow> ''Connection failed'') \<rparr>"

text \<open>\<open>fetchNodeData\<close>, as the settlement of the promise the async function returns.\<close>

definition fetchNodeData ::
  "string \<Rightarrow> NodeStats transport \<Rightarrow> PodsResponse transport \<Rightarrow> nat \<Rightarrow> PNode settled" where
  "fetchNodeData addr statsReply podsReply now =
     (case fetchNodeData_try addr statsReply podsReply now of
        Inr node \<Rightarrow> Fulfilled node
      | Inl e \<Rightarrow> Fulfilled (fetchNodeData_catch addr e))"

section \<open>The fleet poller: \<open>fetchData\<close>\<close>

text \<open>
  \<open>Promise.allSettled(ps)\<close>, with the order in which the promises settle made explicit.
  Each promise writes its settlement into the slot of its own index when it settles; the
  combined promise resolves with the slots once every slot is written. \<open>order\<close> lists the
  indices in completion order; an index outside the list names no promise and writes
  nothing. \<open>None\<close> is the combined promise staying pending.
\<close>

definition allSettled :: "'a settled list \<Rightarrow> nat list \<Rightarrow> 'a settled list option" where
  "allSettled ps order =
     those (foldl (\<lambda>slots i. slots[i := Some (ps ! i)]) (replicate (length ps) None) order)"

text \<open>
  \<open>results.map((result, index) => ...)\<close> of \<open>fetchData\<close>. \<open>results\<close> comes from
  \<open>allSettled\<close> over one promise per address, so \<open>index\<close> is always inside the address
  list.
\<close>

definition nodeResults :: "string list \<Rightarrow> PNode settled list \<Rightarrow> PNode list" where
  "nodeResults ips results =
     map (\<lambda>(index, result).
            case result of
              Fulfilled v \<Rightarrow> v
            | Rejected _ \<Rightarrow>
                \<lparr> node_id = ips ! index, ip = ips ! index, status = Offline, stats = None,
                  version = ''unknown'', gossipPort = 8001, pubkey = None, lastSeen = None,
                  error = Some ''Connection failed (CORS)'' \<rparr>)
         (enumerate 0 results)"

text \<open>The \<open>catch\<close> clause of \<open>fetchData\<close>: every address shown as offline.\<close>

definition fetchData_catch :: "string list \<Rightarrow> PNode list" where
  "fetchData_catch ips =
     map (\<lambda>addr. \<lparr> node_id = addr, ip = addr, status = Offline, stats = None,
                   version = ''unknown'', gossipPort = 8001, pubkey = None, lastSeen = None,
                   error = Some ''Connection failed'' \<rparr>) ips"

text \<open>
  The \<open>try\<close> block of \<open>fetchData\<close>, from the settlements of \<open>fetchPromises\<close> to the list
  handed to \<open>setNodes\<close>. The outer \<open>None\<close> is the \<open>await\<close> never resuming; \<open>Inl\<close> would
  be the block throwing, which no statement of it does.
\<close>

definition fetchData_try ::
  "string list \<Rightarrow> PNode settled list \<Rightarrow> nat list \<Rightarrow> (js_exn + PNode list) option" where
  "fetchData_try ips promises order =
     (case allSettled promises order of
        None \<Rightarrow> None
      | Some results \<Rightarrow> Some (Inr (nodeResults ips results)))"

text \<open>One round over given promises: the argument of \<open>setNodes\<close>, from either clause.\<close>

definition fetchData_round ::
  "string list \<Rightarrow> PNode settled list \<Rightarrow> nat list \<Rightarrow> PNode list option" where
  "fetchData_round ips promises order =
     (case fetchData_try ips promises order of
        None \<Rightarrow> None
      | Some (Inr nodeList) \<Rightarrow> Some nodeList
      | Some (Inl e) \<Rightarrow> Some (fetchData_catch ips))"

text \<open>What one node's poll meets: the replies to its two calls and the clock.\<close>

record poll_env =
  env_stats :: "NodeStats transport"
  env_pods :: "PodsResponse transport"
  env_now :: nat

text \<open>\<open>KNOWN_PNODE_IPS.map((ip) => fetchNodeData(ip))\<close>; \<open>world i\<close> is what the i-th poll meets.\<close>

definition fetchPromises :: "string list \<Rightarrow> (nat \<Rightarrow> poll_env) \<Rightarrow> PNode settled list" where
  "fetchPromises ips world =
     map (\<lambda>(i, addr).
            fetchNodeData addr (env_stats (world i)) (env_pods (world i)) (env_now (world i)))
         (enumerate 0 ips)"

definition fetchData :: "string list \<Rightarrow> (nat \<Rightarrow> poll_env) \<Rightarrow> nat list \<Rightarrow> PNode list option" where
  "fetchData ips world order = fetchData_round ips (fetchPromises ips world) order"

section \<open>The aggregator (fleet metrics computed in \<open>XandeumDashboard\<close>)\<close>

definition totalNodes :: "PNode list \<Rightarrow> nat" where
  "totalNodes nodes = length nodes"

definition onlineNodes :: "PNode list \<Rightarrow> nat" where
  "onlineNodes nodes = length (filter (\<lambda>n. status n = Online) nodes)"

definition offlineNodes :: "PNode list \<Rightarrow> nat" where
  "offlineNodes nodes = length (filter (\<lambda>n. status n = Offline) nodes)"

definition nodesWithStats :: "PNode list \<Rightarrow> PNode list" where
  "nodesWithStats nodes = filter (\<lambda>n. stats n \<noteq> None) nodes"

text \<open>\<open>Array.prototype.reduce\<close> with an initial value is a left fold.\<close>

definition avgCpu :: "PNode list \<Rightarrow> number option" where
  "avgCpu nodes =
     (if length (nodesWithStats nodes) > 0
      then js_div
             (foldl (\<lambda>acc n. acc + (case stats n of Some s \<Rightarrow> cpu_percent s | None \<Rightarrow> 0)) 0
                (nodesWithStats nodes))
             (real (length (nodesWithStats nodes)))
      else Some 0)"

definition totalStorage :: "PNode list \<Rightarrow> number" where
  "totalStorage nodes =
     foldl (\<lambda>acc n. acc + (case stats n of Some s \<Rightarrow> storage_used s | None \<Rightarrow> 0)) 0 nodes"

definition healthPercent :: "PNode list \<Rightarrow> string option" where
  "healthPercent nodes =
     (if totalNodes nodes > 0
      then map_option (\<lambda>q. toFixed0 (q * 100))
             (js_div (real (onlineNodes nodes)) (real (totalNodes nodes)))
      else Some ''0'')"

definition showCorsWarning :: "PNode list \<Rightarrow> bool" where
  "showCorsWarning nodes = (offlineNodes nodes = totalNodes nodes \<and> totalNodes nodes > 0)"

section \<open>The query view: \<open>filteredNodes\<close>\<close>

text \<open>
  \<open>toLowerCase\<close> on the strings of this program (addresses, base-58 keys, typed search
  text), which are ASCII: the letters \<open>A\<close> to \<open>Z\<close> move to \<open>a\<close> to \<open>z\<close>, every other
  character stays.
\<close>

definition lower_char :: "char \<Rightarrow> char" where
  "lower_char c =
     (case map_of (zip ''ABCDEFGHIJKLMNOPQRSTUVWXYZ'' ''abcdefghijklmnopqrstuvwxyz'') c of
        Some l \<Rightarrow> l
      | None \<Rightarrow> c)"

definition toLowerCase :: "string \<Rightarrow> string" where
  "toLowerCase s = map lower_char s"

text \<open>
  \<open>s.includes(t)\<close>, named \<open>includes_str\<close> here: \<open>t\<close> occurs in \<open>s\<close> as a contiguous run
  of characters.
\<close>

fun includes_str :: "string \<Rightarrow> string \<Rightarrow> bool" where
  "includes_str [] t = (t = [])"
| "includes_str (c # cs) t = (prefix t (c # cs) \<or> includes_str cs t)"

datatype status_filter = FilterAll | FilterStatus node_status

text \<open>
  \<open>node.pubkey?.toLowerCase().includes(...)\<close> is \<open>undefined\<close>, hence false in the
  disjunction, when the key is \<open>null\<close>.
\<close>

definition matchesSearch :: "PNode \<Rightarrow> string \<Rightarrow> bool" where
  "matchesSearch node searchQuery =
     (includes_str (toLowerCase (ip node)) (toLowerCase searchQuery) \<or>
      (case pubkey node of
         None \<Rightarrow> False
       | Some k \<Rightarrow> includes_str (toLowerCase k) (toLowerCase searchQuery)))"

definition matchesStatus :: "PNode \<Rightarrow> status_filter \<Rightarrow> bool" where
  "matchesStatus node statusFilter =
     (statusFilter = FilterAll \<or> FilterStatus (status node) = statusFilter)"

definition filteredNodes :: "PNode list \<Rightarrow> string \<Rightarrow> status_filter \<Rightarrow> PNode list" where
  "filteredNodes nodes searchQuery statusFilter =
     filter (\<lambda>node. matchesSearch node searchQuery \<and> matchesStatus node statusFilter) nodes"

section \<open>Poll triggers\<close>

text \<open>
  The component's state that the triggers touch (\<open>nodes_state\<close> is the state variable
  \<open>nodes\<close>), and \<open>in_flight\<close>: the number of \<open>fetchData\<close> invocations that have
  started and not yet reached their \<open>finally\<close> clause.
  JavaScript runs one handler at a time, so a run of the component is a sequence of events:
  \<^item> \<open>Tick\<close>: the effect's first call or a \<open>setInterval\<close> tick; both call \<open>fetchData\<close>
    directly;
  \<^item> \<open>RefreshClick\<close>: a click on the refresh button, which is \<open>disabled={isRefreshing}\<close>;
  \<^item> \<open>RoundDone ns\<close>: a round in flight finishes with the list \<open>ns\<close> for \<open>setNodes\<close>, and
    its \<open>finally\<close> clause runs.
  The wall-clock distance between events is not part of the model.
\<close>

record dashboard =
  nodes_state :: "PNode list"
  loading :: bool
  isRefreshing :: bool
  in_flight :: nat

datatype event = Tick | RefreshClick | RoundDone "PNode list"

definition initial :: dashboard where
  "initial = \<lparr> nodes_state = [], loading = True, isRefreshing = False, in_flight = 0 \<rparr>"

definition startRound :: "dashboard \<Rightarrow> dashboard" where
  "startRound s = s\<lparr> isRefreshing := True, in_flight := in_flight s + 1 \<rparr>"

fun step :: "dashboard \<Rightarrow> event \<Rightarrow> dashboard" where
  "step s Tick = startRound s"
| "step s RefreshClick = (if isRefreshing s then s else startRound s)"
| "step s (RoundDone ns) =
     (if in_flight s = 0 then s
      else s\<lparr> nodes_state := ns, loading := False, isRefreshing := False,
              in_flight := in_flight s - 1 \<rparr>)"

definition run :: "dashboard \<Rightarrow> event list \<Rightarrow> dashboard" where
  "run s evs = foldl step s evs"

section \<open>Facts about the building blocks\<close>

lemma slots_length:
  "length (foldl (\<lambda>slots i. slots[i := Some (ps ! i)]) init order) = length init"
  by (induction order arbitrary: init) simp_all

lemma slots_nth:
  "k < length init \<Longrightarrow>
   foldl (\<lambda>slots i. slots[i := Some (ps ! i)]) init order ! k =
     (if k \<in> set order then Some (ps ! k) else init ! k)"
proof (induction order arbitrary: init)
  case Nil
  then show ?case by simp
next
  case (Cons j order)
  then show ?case by (auto simp: nth_list_update)
qed

lemma those_map_Some: "those (map Some xs) = Some xs"
  by (induction xs) simp_all

lemma those_None: "None \<in> set xs \<Longrightarrow> those xs = None"
  by (induction xs) (auto split: option.splits)

text \<open>Once every promise has settled, in whatever order, the slots are the settlements.\<close>

lemma allSettled_complete:
  assumes "{..<length ps} \<subseteq> set order"
  shows "allSettled ps order = Some ps"
proof -
  let ?slots = "foldl (\<lambda>slots i. slots[i := Some (ps ! i)]) (replicate (length ps) None) order"
  have "?slots = map Some ps"
  proof (rule nth_equalityI)
    show "length ?slots = length (map Some ps)" by (simp add: slots_length)
  next
    fix k assume "k < length ?slots"
    then have k: "k < length ps" by (simp add: slots_length)
    with assms have "k \<in> set order" by auto
    with k show "?slots ! k = map Some ps ! k" by (simp add: slots_nth)
  qed
  then show ?thesis by (simp add: allSettled_def those_map_Some)
qed

text \<open>While one promise has not settled, the combined promise stays pending.\<close>

lemma allSettled_pending:
  assumes "k < length ps" and "k \<notin> set order"
  shows "allSettled ps order = None"
proof -
  let ?slots = "foldl (\<lambda>slots i. slots[i := Some (ps ! i)]) (replicate (length ps) None) order"
  have "?slots ! k = None" using assms by (simp add: slots_nth)
  moreover have "k < length ?slots" using assms by (simp add: slots_length)
  ultimately have "None \<in> set ?slots" by (metis nth_mem)
  then show ?thesis by (simp add: allSettled_def those_None)
qed

lemma nodeResults_length: "length (nodeResults ips results) = length results"
  by (simp add: nodeResults_def)

lemma nodeResults_nth:
  "i < length results \<Longrightarrow>
   nodeResults ips results ! i =
     (case results ! i of
        Fulfilled v \<Rightarrow> v
      | Rejected _ \<Rightarrow>
          \<lparr> node_id = ips ! i, ip = ips ! i, status = Offline, stats = None,
            version = ''unknown'', gossipPort = 8001, pubkey = None, lastSeen = None,
            error = Some ''Connection failed (CORS)'' \<rparr>)"
  by (simp add: nodeResults_def nth_enumerate_eq)

lemma fetchData_round_complete:
  "{..<length promises} \<subseteq> set order \<Longrightarrow>
   fetchData_round ips promises order = Some (nodeResults ips promises)"
  by (simp add: fetchData_round_def fetchData_try_def allSettled_complete)

lemma fetchNodeData_address:
  "\<exists>node. fetchNodeData addr statsReply podsReply now = Fulfilled node \<and> ip node = addr \<and>
     node_id node = addr"
  by (simp add: fetchNodeData_def fetchNodeData_try_def Let_def)

lemma fetchPromises_length: "length (fetchPromises ips world) = length ips"
  by (simp add: fetchPromises_def)

lemma fetchPromises_nth:
  "i < length ips \<Longrightarrow>
   fetchPromises ips world ! i =
     fetchNodeData (ips ! i) (env_stats (world i)) (env_pods (world i)) (env_now (world i))"
  by (simp add: fetchPromises_def nth_enumerate_eq)

lemma foldl_add_sum_list:
  "foldl (\<lambda>acc n. acc + f n) a xs = a + sum_list (map f xs)" for a :: real
  by (induction xs arbitrary: a) simp_all

lemma map_filter_stats_length:
  "length (List.map_filter stats nodeList) = length (nodesWithStats nodeList)"
  by (induction nodeList)
    (auto simp: List.map_filter_simps nodesWithStats_def split: option.splits)

lemma nodesWithStats_cpu_sum:
  "sum_list (map (\<lambda>n. case stats n of Some s \<Rightarrow> cpu_percent s | None \<Rightarrow> 0)
      (nodesWithStats nodeList))
     = sum_list (map cpu_percent (List.map_filter stats nodeList))"
  by (induction nodeList)
    (auto simp: List.map_filter_simps nodesWithStats_def split: option.splits)

lemma allSettled_Some:
  assumes "allSettled ps order = Some rs"
  shows "rs = ps"
proof -
  have "k \<in> set order" if "k < length ps" for k
    using allSettled_pending [of k ps order] that assms by auto
  then have "{..<length ps} \<subseteq> set order" by auto
  then have "allSettled ps order = Some ps" by (rule allSettled_complete)
  with assms show ?thesis by simp
qed


lemma fetchPromises_not_offline:
  assumes "Fulfilled node \<in> set (fetchPromises ips world)"
  shows "status node \<noteq> Offline"
proof -
  from assms obtain i where i: "i < length ips" "fetchPromises ips world ! i = Fulfilled node"
    by (auto simp: in_set_conv_nth fetchPromises_length)
  then have "fetchNodeData (ips ! i) (env_stats (world i)) (env_pods (world i))
               (env_now (world i)) = Fulfilled node"
    by (simp add: fetchPromises_nth)
  then show ?thesis
    by (auto simp: fetchNodeData_def fetchNodeData_try_def Let_def split: option.splits if_splits)
qed

lemma fetchPromises_fulfilled:
  "p \<in> set (fetchPromises ips world) \<Longrightarrow> \<exists>node. p = Fulfilled node"
  by (auto simp: fetchPromises_def fetchNodeData_def fetchNodeData_try_def Let_def)

lemma nodeResults_fulfilled:
  assumes "\<forall>p \<in> set results. \<exists>node. p = Fulfilled node \<and> P node"
  shows "\<forall>n \<in> set (nodeResults ips results). P n"
  using assms
  by (fastforce simp: nodeResults_def in_set_enumerate_eq split: settled.splits)

text \<open>
  No poll ends in an offline snapshot, so after a completed round the warning for an
  all-offline fleet is never shown.
\<close>

lemma cors_warning_never_shown:
  assumes "fetchData ips world order = Some nodeList"
  shows "\<not> showCorsWarning nodeList"
proof -
  from assms have nl: "nodeList = nodeResults ips (fetchPromises ips world)"
    by (auto simp: fetchData_def fetchData_round_def fetchData_try_def
        split: option.splits dest: allSettled_Some)
  have "\<forall>p \<in> set (fetchPromises ips world). \<exists>node. p = Fulfilled node \<and> status node \<noteq> Offline"
    using fetchPromises_fulfilled fetchPromises_not_offline by blast
  then have "\<forall>n \<in> set nodeList. status n \<noteq> Offline"
    unfolding nl by (rule nodeResults_fulfilled)
  then have "filter (\<lambda>n. status n = Offline) nodeList = []"
    by (simp add: filter_empty_conv)
  then show ?thesis
    by (auto simp: showCorsWarning_def offlineNodes_def totalNodes_def)
qed

text \<open>\<open>toFixed(0)\<close> of a non-negative number prints a natural number at distance at most 1/2.\<close>

lemma toFixed0_nearest:
  assumes "0 \<le> x"
  shows "\<exists>k. toFixed0 x = digits k \<and> \<bar>real k - x\<bar> \<le> 1 / 2"
proof -
  let ?k = "nat \<lfloor>x + 1 / 2\<rfloor>"
  have "0 \<le> \<lfloor>x + 1 / 2\<rfloor>" using assms by simp
  then have "real ?k = of_int \<lfloor>x + 1 / 2\<rfloor>" by simp
  moreover have "of_int \<lfloor>x + 1 / 2\<rfloor> \<le> x + 1 / 2" by (rule of_int_floor_le)
  moreover have "x + 1 / 2 < of_int \<lfloor>x + 1 / 2\<rfloor> + 1" by linarith
  ultimately have "\<bar>real ?k - x\<bar> \<le> 1 / 2" by linarith
  moreover have "toFixed0 x = digits ?k" using assms by (simp add: toFixed0_def)
  ultimately show ?thesis by blast
qed

text \<open>\<open>includes_str\<close> is the contiguous-sublist relation of the library.\<close>

lemma includes_str_sublist: "includes_str s t = sublist t s"
  by (induction s) (simp_all add: sublist_Cons_right)

lemma includes_str_iff: "includes_str s t = (\<exists>pre post. s = pre @ t @ post)"
  by (simp add: includes_str_sublist sublist_def)

lemma run_ticks: "in_flight (run s (replicate n Tick)) = in_flight s + n"
  by (induction n arbitrary: s) (simp_all add: run_def startRound_def)

section \<open>The RPC client\<close>

text \<open>
  Claim C8. When \<open>rpcCall\<close> receives a response envelope, exactly one of three things
  happens, decided by the envelope alone: with an \<open>error\<close> field the call fails with an
  \<open>Error\<close> carrying the remote message; with neither \<open>error\<close> nor \<open>result\<close> it fails with
  the protocol-violation \<open>Error\<close> "No result in response"; otherwise it returns the result.
\<close>

theorem rpcCall_envelope:
  "rpcCall (OkBody (Inr d)) =
     (case rpc_error d of
        Some e \<Rightarrow> Rejected (JsError (message e))
      | None \<Rightarrow>
          (case rpc_result d of
             None \<Rightarrow> Rejected (JsError ''No result in response'')
           | Some r \<Rightarrow> Fulfilled r))"
  by (simp add: rpcCall_def)

section \<open>The node poller\<close>

text \<open>
  Claim C1 says that a node whose two calls both fail is classified \<open>offline\<close>, with the
  failure as its error. The poller does otherwise: here both calls are aborted by the
  timeout, and the snapshot is \<open>online\<close>, without metrics or key, and with no error.
  \<open>Promise.allSettled\<close> absorbs both rejections, so the \<open>catch\<close> clause that builds the
  offline snapshot is never entered, and \<open>status\<close> keeps its initial value. It is
  \<open>online\<close> as well when the metrics call alone fails, with the key attached.
\<close>

theorem fetchNodeData_both_calls_fail_online:
  "fetchNodeData ''62.171.169.176''
     (FetchRejected (JsError ''The operation was aborted.''))
     (FetchRejected (JsError ''The operation was aborted.'')) 1700000000000
   = Fulfilled \<lparr> node_id = ''62.171.169.176'', ip = ''62.171.169.176'', status = Online,
                 stats = None, version = ''v0.8 Reinheim'', gossipPort = 8001, pubkey = None,
                 lastSeen = Some 1700000000000, error = None \<rparr> \<and>
   fetchNodeData ''161.97.151.101''
     (FetchRejected (JsError ''The operation was aborted.''))
     (OkBody (Inr \<lparr> jsonrpc = ''2.0'', rpc_id = 1700000000000,
        rpc_result = Some \<lparr> total_count = 1,
          pods = [\<lparr> pod_pubkey = ''abc123'', pod_ip = None, gossip_port = None \<rparr>] \<rparr>,
        rpc_error = None \<rparr>)) 1700000000000
   = Fulfilled \<lparr> node_id = ''161.97.151.101'', ip = ''161.97.151.101'', status = Online,
                 stats = None, version = ''v0.8 Reinheim'', gossipPort = 8001,
                 pubkey = Some ''abc123'', lastSeen = Some 1700000000000, error = None \<rparr>"
  by (simp add: fetchNodeData_def fetchNodeData_try_def rpcCall_def)

text \<open>
  Claim C5. When the metrics call succeeded with metrics \<open>s\<close>, the snapshot carries
  \<open>s\<close>, and its status is \<open>degraded\<close> if and only if \<open>cpu_percent > 90\<close> or
  \<open>memory_percent > 95\<close>, and \<open>online\<close> otherwise, whatever the membership call did.
\<close>

theorem fetchNodeData_status_from_metrics:
  assumes "rpcCall statsReply = Fulfilled s"
  shows "\<exists>node. fetchNodeData addr statsReply podsReply now = Fulfilled node \<and>
           stats node = Some s \<and>
           (status node = Degraded) = (cpu_percent s > 90 \<or> memory_percent s > 95) \<and>
           (status node = Online) = (\<not> (cpu_percent s > 90 \<or> memory_percent s > 95))"
  using assms by (simp add: fetchNodeData_def fetchNodeData_try_def Let_def)

theorem fetchNodeData_status_from_metrics_witness:
  "rpcCall (OkBody (Inr \<lparr> jsonrpc = ''2.0'', rpc_id = 1,
       rpc_result = Some \<lparr> cpu_percent = 95, memory_percent = 40, storage_used = 128000000000,
                           storage_percent = 42, uptime = 2592000 \<rparr>,
       rpc_error = None \<rparr>))
     = Fulfilled \<lparr> cpu_percent = 95, memory_percent = 40, storage_used = 128000000000,
                   storage_percent = 42, uptime = 2592000 \<rparr> \<and>
   (\<exists>node. fetchNodeData ''173.212.220.65''
        (OkBody (Inr \<lparr> jsonrpc = ''2.0'', rpc_id = 1,
           rpc_result = Some \<lparr> cpu_percent = 95, memory_percent = 40,
                               storage_used = 128000000000, storage_percent = 42,
                               uptime = 2592000 \<rparr>,
           rpc_error = None \<rparr>))
        (FetchRejected JsOther) 1700000000000 = Fulfilled node \<and> status node = Degraded)"
proof -
  let ?s = "\<lparr> cpu_percent = 95, memory_percent = 40, storage_used = 128000000000,
              storage_percent = 42, uptime = 2592000 \<rparr>"
  let ?r = "OkBody (Inr \<lparr> jsonrpc = ''2.0'', rpc_id = 1, rpc_result = Some ?s,
                          rpc_error = None \<rparr>)"
  have h: "rpcCall ?r = Fulfilled ?s" by (simp add: rpcCall_def)
  from fetchNodeData_status_from_metrics
         [OF h, of "''173.212.220.65''" "FetchRejected JsOther" 1700000000000]
  show ?thesis using h by auto
qed

text \<open>
  Claim C6 says that the last-seen timestamp is absent when both calls fail. The poller
  sets it all the same: here both calls get an HTTP 500 from the proxy, and the snapshot
  carries the time of the poll. This is the defect shown for claim C1: the \<open>catch\<close>
  clause, which sets \<open>lastSeen\<close> to \<open>null\<close>, is never entered.
\<close>

theorem fetchNodeData_lastSeen_both_calls_fail:
  "fetchNodeData ''173.249.11.155''
     (NotOk 500 (Inr (Some ''fetch failed'')))
     (NotOk 500 (Inr (Some ''fetch failed''))) 1700000030000
   = Fulfilled \<lparr> node_id = ''173.249.11.155'', ip = ''173.249.11.155'', status = Online,
                 stats = None, version = ''v0.8 Reinheim'', gossipPort = 8001, pubkey = None,
                 lastSeen = Some 1700000030000, error = None \<rparr>"
  by (simp add: fetchNodeData_def fetchNodeData_try_def rpcCall_def)

section \<open>The fleet poller\<close>

text \<open>
  Claim C2. Whatever each node's calls do and in whatever order the polls complete, once
  all of them have completed the round delivers exactly one snapshot per configured
  address, and the snapshot at position \<open>i\<close> carries the address at position \<open>i\<close>.
\<close>

theorem fetchData_order:
  assumes "set order = {..<length ips}"
  shows "\<exists>nodeList. fetchData ips world order = Some nodeList \<and>
           length nodeList = length ips \<and>
           (\<forall>i<length ips. ip (nodeList ! i) = ips ! i \<and> node_id (nodeList ! i) = ips ! i)"
proof -
  have "fetchData ips world order = Some (nodeResults ips (fetchPromises ips world))"
    using assms by (simp add: fetchData_def fetchData_round_complete fetchPromises_length)
  moreover have "length (nodeResults ips (fetchPromises ips world)) = length ips"
    by (simp add: nodeResults_length fetchPromises_length)
  moreover have "ip (nodeResults ips (fetchPromises ips world) ! i) = ips ! i \<and>
                 node_id (nodeResults ips (fetchPromises ips world) ! i) = ips ! i"
    if i: "i < length ips" for i
  proof -
    obtain node where "fetchPromises ips world ! i = Fulfilled node" and "ip node = ips ! i"
        and "node_id node = ips ! i"
      using fetchNodeData_address [of "ips ! i" "env_stats (world i)" "env_pods (world i)"
          "env_now (world i)"] i
      by (auto simp: fetchPromises_nth)
    with i show ?thesis by (simp add: nodeResults_nth fetchPromises_length)
  qed
  ultimately show ?thesis by simp
qed

theorem fetchData_order_witness:
  "set [9, 3, 0, 7, 1, 8, 2, 6, 4, 5] = {..<length KNOWN_PNODE_IPS} \<and>
   (\<exists>nodeList.
      fetchData KNOWN_PNODE_IPS
        (\<lambda>i. \<lparr> env_stats = FetchRejected JsOther, env_pods = FetchRejected JsOther,
                env_now = 1700000000000 + i \<rparr>)
        [9, 3, 0, 7, 1, 8, 2, 6, 4, 5] = Some nodeList \<and>
      length nodeList = length KNOWN_PNODE_IPS \<and>
      (\<forall>i<length KNOWN_PNODE_IPS.
         ip (nodeList ! i) = KNOWN_PNODE_IPS ! i \<and>
         node_id (nodeList ! i) = KNOWN_PNODE_IPS ! i))"
proof -
  have h: "set [9, 3, 0, 7, 1, 8, 2, 6, 4, 5] = {..<length KNOWN_PNODE_IPS}"
    by (auto simp: KNOWN_PNODE_IPS_def lessThan_def less_Suc_eq)
  show ?thesis
    by (rule conjI [OF h fetchData_order [OF h]])
qed

text \<open>
  Claim C3. The node poller always returns exactly one snapshot: its promise is fulfilled
  for every outcome of the two calls, never rejected. And should a poller promise be
  rejected all the same, the round still delivers one entry per address: the rejected
  position becomes an offline snapshot of its own address, every other position keeps the
  snapshot its poller returned.
\<close>

theorem poller_total_faults_absorbed:
  "(\<exists>node. fetchNodeData addr statsReply podsReply now = Fulfilled node) \<and>
   (length promises = length ips \<and> set order = {..<length ips} \<longrightarrow>
      (\<exists>nodeList. fetchData_round ips promises order = Some nodeList \<and>
         length nodeList = length ips \<and>
         (\<forall>i<length ips.
            nodeList ! i =
              (case promises ! i of
                 Fulfilled v \<Rightarrow> v
               | Rejected e \<Rightarrow>
                   \<lparr> node_id = ips ! i, ip = ips ! i, status = Offline, stats = None,
                     version = ''unknown'', gossipPort = 8001, pubkey = None, lastSeen = None,
                     error = Some ''Connection failed (CORS)'' \<rparr>))))"
proof (intro conjI impI)
  show "\<exists>node. fetchNodeData addr statsReply podsReply now = Fulfilled node"
    using fetchNodeData_address [of addr statsReply podsReply now] by blast
next
  assume a: "length promises = length ips \<and> set order = {..<length ips}"
  then have "fetchData_round ips promises order = Some (nodeResults ips promises)"
    by (simp add: fetchData_round_complete)
  with a show "\<exists>nodeList. fetchData_round ips promises order = Some nodeList \<and>
         length nodeList = length ips \<and>
         (\<forall>i<length ips.
            nodeList ! i =
              (case promises ! i of
                 Fulfilled v \<Rightarrow> v
               | Rejected e \<Rightarrow>
                   \<lparr> node_id = ips ! i, ip = ips ! i, status = Offline, stats = None,
                     version = ''unknown'', gossipPort = 8001, pubkey = None, lastSeen = None,
                     error = Some ''Connection failed (CORS)'' \<rparr>))"
    by (simp add: nodeResults_length nodeResults_nth)
qed

theorem poller_total_faults_absorbed_witness:
  "length [Rejected (JsError ''boom''),
           Fulfilled \<lparr> node_id = ''62.171.169.176'', ip = ''62.171.169.176'', status = Online,
                       stats = None, version = ''v0.8 Reinheim'', gossipPort = 8001,
                       pubkey = None, lastSeen = Some 5, error = None \<rparr>]
     = length [''173.212.220.65'', ''62.171.169.176''] \<and>
   set [1, 0] = {..<length [''173.212.220.65'', ''62.171.169.176'']} \<and>
   fetchData_round [''173.212.220.65'', ''62.171.169.176'']
     [Rejected (JsError ''boom''),
      Fulfilled \<lparr> node_id = ''62.171.169.176'', ip = ''62.171.169.176'', status = Online,
                  stats = None, version = ''v0.8 Reinheim'', gossipPort = 8001,
                  pubkey = None, lastSeen = Some 5, error = None \<rparr>]
     [1, 0]
   = Some [\<lparr> node_id = ''173.212.220.65'', ip = ''173.212.220.65'', status = Offline,
              stats = None, version = ''unknown'', gossipPort = 8001, pubkey = None,
              lastSeen = None, error = Some ''Connection failed (CORS)'' \<rparr>,
           \<lparr> node_id = ''62.171.169.176'', ip = ''62.171.169.176'', status = Online,
              stats = None, version = ''v0.8 Reinheim'', gossipPort = 8001,
              pubkey = None, lastSeen = Some 5, error = None \<rparr>]"
proof -
  let ?ips = "[''173.212.220.65'', ''62.171.169.176'']"
  let ?n = "\<lparr> node_id = ''62.171.169.176'', ip = ''62.171.169.176'', status = Online,
              stats = None, version = ''v0.8 Reinheim'', gossipPort = 8001,
              pubkey = None, lastSeen = Some 5, error = None \<rparr>"
  let ?ps = "[Rejected (JsError ''boom''), Fulfilled ?n]"
  have h1: "length ?ps = length ?ips" by simp
  have h2: "set [1, 0] = {..<length ?ips}" by (auto simp: lessThan_def less_Suc_eq)
  from poller_total_faults_absorbed [of "''173.212.220.65''" "FetchRejected JsOther" "FetchRejected JsOther" 0
          ?ps ?ips "[1, 0]"]
  have "length ?ps = length ?ips \<and> set [1, 0] = {..<length ?ips} \<longrightarrow>
      (\<exists>nodeList. fetchData_round ?ips ?ps [1, 0] = Some nodeList \<and>
         length nodeList = length ?ips \<and>
         (\<forall>i<length ?ips.
            nodeList ! i =
              (case ?ps ! i of
                 Fulfilled v \<Rightarrow> v
               | Rejected e \<Rightarrow>
                   \<lparr> node_id = ?ips ! i, ip = ?ips ! i, status = Offline, stats = None,
                     version = ''unknown'', gossipPort = 8001, pubkey = None, lastSeen = None,
                     error = Some ''Connection failed (CORS)'' \<rparr>)))"
    by (rule conjunct2)
  with h1 h2 obtain nodeList where
    r: "fetchData_round ?ips ?ps [1, 0] = Some nodeList"
    and l: "length nodeList = length ?ips"
    and n: "\<forall>i<length ?ips.
            nodeList ! i =
              (case ?ps ! i of
                 Fulfilled v \<Rightarrow> v
               | Rejected e \<Rightarrow>
                   \<lparr> node_id = ?ips ! i, ip = ?ips ! i, status = Offline, stats = None,
                     version = ''unknown'', gossipPort = 8001, pubkey = None, lastSeen = None,
                     error = Some ''Connection failed (CORS)'' \<rparr>)"
    by blast
  from l obtain a b where ab: "nodeList = [a, b]"
    by (cases nodeList; cases "tl nodeList"; cases "tl (tl nodeList)") auto
  from n have "nodeList ! 0 = \<lparr> node_id = ''173.212.220.65'', ip = ''173.212.220.65'', status = Offline,
              stats = None, version = ''unknown'', gossipPort = 8001, pubkey = None,
              lastSeen = None, error = Some ''Connection failed (CORS)'' \<rparr>"
    by simp
  moreover from n have "nodeList ! 1 = ?n" by simp
  ultimately have "nodeList = [\<lparr> node_id = ''173.212.220.65'', ip = ''173.212.220.65'', status = Offline,
              stats = None, version = ''unknown'', gossipPort = 8001, pubkey = None,
              lastSeen = None, error = Some ''Connection failed (CORS)'' \<rparr>, ?n]"
    using ab by simp
  with r h1 h2 show ?thesis by simp
qed



section \<open>The aggregator\<close>

text \<open>
  Claim C4. For every list of snapshots, the empty one included, no quotient of the
  aggregator has a zero divisor (each result is a \<open>Some\<close>), and: the mean CPU is the sum of
  \<open>cpu_percent\<close> over the nodes that have metrics divided by their number, and 0 when
  there is none; the total storage is the sum of \<open>storage_used\<close>, a node without metrics
  counting 0; the health percentage is the online count divided by the node count,
  times 100, printed by \<open>toFixed(0)\<close>, and "0" for the empty list.
\<close>

theorem aggregate_formulas:
  "avgCpu nodeList =
     Some (if List.map_filter stats nodeList = [] then 0
           else sum_list (map cpu_percent (List.map_filter stats nodeList)) /
                real (length (List.map_filter stats nodeList))) \<and>
   totalStorage nodeList =
     (\<Sum>n\<leftarrow>nodeList. case stats n of None \<Rightarrow> 0 | Some s \<Rightarrow> storage_used s) \<and>
   healthPercent nodeList =
     Some (if nodeList = [] then ''0''
           else toFixed0 (real (length (filter (\<lambda>n. status n = Online) nodeList)) /
                          real (length nodeList) * 100))"
proof (intro conjI)
  show "avgCpu nodeList =
     Some (if List.map_filter stats nodeList = [] then 0
           else sum_list (map cpu_percent (List.map_filter stats nodeList)) /
                real (length (List.map_filter stats nodeList)))"
  proof (cases "nodesWithStats nodeList = []")
    case True
    then have "List.map_filter stats nodeList = []"
      using map_filter_stats_length [of nodeList] by simp
    with True show ?thesis by (simp add: avgCpu_def)
  next
    case False
    then have "List.map_filter stats nodeList \<noteq> []"
      using map_filter_stats_length [of nodeList] by auto
    with False show ?thesis
      by (simp add: avgCpu_def js_div_def foldl_add_sum_list nodesWithStats_cpu_sum
          map_filter_stats_length)
  qed
next
  show "totalStorage nodeList =
     (\<Sum>n\<leftarrow>nodeList. case stats n of None \<Rightarrow> 0 | Some s \<Rightarrow> storage_used s)"
  proof -
    have "(\<lambda>n. case stats n of Some s \<Rightarrow> storage_used s | None \<Rightarrow> 0) =
          (\<lambda>n. case stats n of None \<Rightarrow> 0 | Some s \<Rightarrow> storage_used s)" by simp
    then show ?thesis by (simp add: totalStorage_def foldl_add_sum_list)
  qed
next
  show "healthPercent nodeList =
     Some (if nodeList = [] then ''0''
           else toFixed0 (real (length (filter (\<lambda>n. status n = Online) nodeList)) /
                          real (length nodeList) * 100))"
    by (simp add: healthPercent_def totalNodes_def onlineNodes_def js_div_def)
qed

theorem aggregate_formulas_witness:
  "avgCpu
     [\<lparr> node_id = ''A'', ip = ''A'', status = Degraded,
         stats = Some \<lparr> cpu_percent = 95, memory_percent = 40, storage_used = 1000,
                        storage_percent = 10, uptime = 60 \<rparr>,
         version = ''v0.8 Reinheim'', gossipPort = 8001, pubkey = None, lastSeen = Some 7,
         error = None \<rparr>,
      \<lparr> node_id = ''B'', ip = ''B'', status = Offline, stats = None, version = ''unknown'',
         gossipPort = 8001, pubkey = None, lastSeen = None,
         error = Some ''Connection failed'' \<rparr>,
      \<lparr> node_id = ''C'', ip = ''C'', status = Online,
         stats = Some \<lparr> cpu_percent = 20, memory_percent = 30, storage_used = 500,
                        storage_percent = 5, uptime = 60 \<rparr>,
         version = ''v0.8 Reinheim'', gossipPort = 8001, pubkey = Some ''abc123'',
         lastSeen = Some 7, error = None \<rparr>] = Some (115 / 2) \<and>
   totalStorage
     [\<lparr> node_id = ''A'', ip = ''A'', status = Degraded,
         stats = Some \<lparr> cpu_percent = 95, memory_percent = 40, storage_used = 1000,
                        storage_percent = 10, uptime = 60 \<rparr>,
         version = ''v0.8 Reinheim'', gossipPort = 8001, pubkey = None, lastSeen = Some 7,
         error = None \<rparr>,
      \<lparr> node_id = ''B'', ip = ''B'', status = Offline, stats = None, version = ''unknown'',
         gossipPort = 8001, pubkey = None, lastSeen = None,
         error = Some ''Connection failed'' \<rparr>,
      \<lparr> node_id = ''C'', ip = ''C'', status = Online,
         stats = Some \<lparr> cpu_percent = 20, memory_percent = 30, storage_used = 500,
                        storage_percent = 5, uptime = 60 \<rparr>,
         version = ''v0.8 Reinheim'', gossipPort = 8001, pubkey = Some ''abc123'',
         lastSeen = Some 7, error = None \<rparr>] = 1500 \<and>
   healthPercent
     [\<lparr> node_id = ''A'', ip = ''A'', status = Degraded,
         stats = Some \<lparr> cpu_percent = 95, memory_percent = 40, storage_used = 1000,
                        storage_percent = 10, uptime = 60 \<rparr>,
         version = ''v0.8 Reinheim'', gossipPort = 8001, pubkey = None, lastSeen = Some 7,
         error = None \<rparr>,
      \<lparr> node_id = ''B'', ip = ''B'', status = Offline, stats = None, version = ''unknown'',
         gossipPort = 8001, pubkey = None, lastSeen = None,
         error = Some ''Connection failed'' \<rparr>,
      \<lparr> node_id = ''C'', ip = ''C'', status = Online,
         stats = Some \<lparr> cpu_percent = 20, memory_percent = 30, storage_used = 500,
                        storage_percent = 5, uptime = 60 \<rparr>,
         version = ''v0.8 Reinheim'', gossipPort = 8001, pubkey = Some ''abc123'',
         lastSeen = Some 7, error = None \<rparr>] = Some ''33'' \<and>
   avgCpu [] = Some 0 \<and> totalStorage [] = 0 \<and> healthPercent [] = Some ''0''"
  using aggregate_formulas [of "[]"]
    aggregate_formulas
     [of "[\<lparr> node_id = ''A'', ip = ''A'', status = Degraded,
         stats = Some \<lparr> cpu_percent = 95, memory_percent = 40, storage_used = 1000,
                        storage_percent = 10, uptime = 60 \<rparr>,
         version = ''v0.8 Reinheim'', gossipPort = 8001, pubkey = None, lastSeen = Some 7,
         error = None \<rparr>,
      \<lparr> node_id = ''B'', ip = ''B'', status = Offline, stats = None, version = ''unknown'',
         gossipPort = 8001, pubkey = None, lastSeen = None,
         error = Some ''Connection failed'' \<rparr>,
      \<lparr> node_id = ''C'', ip = ''C'', status = Online,
         stats = Some \<lparr> cpu_percent = 20, memory_percent = 30, storage_used = 500,
                        storage_percent = 5, uptime = 60 \<rparr>,
         version = ''v0.8 Reinheim'', gossipPort = 8001, pubkey = Some ''abc123'',
         lastSeen = Some 7, error = None \<rparr>]"]
  by (simp add: List.map_filter_simps toFixed0_def digits.simps digit_char_def)

section \<open>The query view\<close>

text \<open>
  Claim C7, as the program has it. A node passes the search predicate if and only if the
  lower-cased search text occurs in its lower-cased address or in its lower-cased
  membership key; a node without key can pass through its address only. The list shown is
  the input list filtered by the conjunction of the search and the status predicate.
\<close>

theorem matchesSearch_lower_case:
  "matchesSearch node searchQuery =
     ((\<exists>pre post. toLowerCase (ip node) = pre @ toLowerCase searchQuery @ post) \<or>
      (\<exists>k pre post. pubkey node = Some k \<and>
         toLowerCase k = pre @ toLowerCase searchQuery @ post)) \<and>
   filteredNodes nodeList searchQuery statusFilter =
     filter (\<lambda>n. matchesSearch n searchQuery \<and> matchesStatus n statusFilter) nodeList"
  by (auto simp: matchesSearch_def filteredNodes_def includes_str_iff split: option.splits)

text \<open>
  The match of claim C7 is not case-sensitive: the search text "ABC" finds the node
  whose key is "abc123", although "ABC" occurs neither in the address nor in the key.
\<close>

theorem search_ignores_case:
  "matchesSearch
     \<lparr> node_id = ''161.97.151.101'', ip = ''161.97.151.101'', status = Online, stats = None,
       version = ''v0.8 Reinheim'', gossipPort = 8001, pubkey = Some ''abc123'',
       lastSeen = Some 1700000000000, error = None \<rparr> ''ABC'' \<and>
   \<not> includes_str ''161.97.151.101'' ''ABC'' \<and>
   \<not> includes_str ''abc123'' ''ABC''"
  by (simp add: matchesSearch_def toLowerCase_def lower_char_def)

section \<open>Poll triggers\<close>

text \<open>
  Claim C9, as the program has it. A tick always starts a round at once, also while other
  rounds are in flight: \<open>n\<close> ticks without a completion in between leave \<open>n\<close> rounds in
  flight. A click on the refresh button is dropped while \<open>isRefreshing\<close> is set, and starts
  a round like a tick otherwise.
\<close>

theorem triggers_start_rounds:
  "in_flight (step s Tick) = in_flight s + 1 \<and>
   step s RefreshClick = (if isRefreshing s then s else step s Tick) \<and>
   in_flight (run initial (replicate n Tick)) = n"
  by (simp add: run_ticks startRound_def initial_def)

text \<open>
  Rounds do overlap, against claim C9: the first round finishes, the user clicks the
  refresh button, and the next interval tick arrives while that round is in flight.
\<close>

theorem two_rounds_in_flight:
  "in_flight (run initial [Tick, RoundDone [], RefreshClick, Tick]) = 2"
  by (simp add: run_def initial_def startRound_def)

end
